theory Spec2Isabelle
  imports Main "HOL-Library.AList"
begin

section \<open>Errors\<close>

text \<open>
  The source has no \<^verbatim>\<open>throw\<close> of its own: every exception comes out of a call into
  \<^verbatim>\<open>fs\<close> or out of the codec's \<^verbatim>\<open>parse\<close>. Both are values here.
\<close>

datatype errno = ENOENT | EEXIST | EISDIR | ENOTDIR | EACCES

datatype error = IOError errno | FormatError string

section \<open>The filesystem calls the source makes\<close>

text \<open>
  An absolute path is the list of its components, the root being \<open>[]\<close>;
  \<^verbatim>\<open>path.dirname\<close> drops the last component and leaves the root alone.
  A filesystem maps paths to nodes; \<open>denied\<close> marks the paths the process may not
  write (a read-only file, a full disk), so that a write can fail at any moment.
\<close>

type_synonym path = "string list"

datatype node = File string | Dir

record filesystem =
  nodes :: "path \<Rightarrow> node option"
  denied :: "path \<Rightarrow> bool"

definition dirname :: "path \<Rightarrow> path" where
  "dirname p = butlast p"

definition node_at :: "filesystem \<Rightarrow> path \<Rightarrow> node option" where
  "node_at f p = (if p = [] then Some Dir else nodes f p)"

definition existsSync :: "filesystem \<Rightarrow> path \<Rightarrow> bool" where
  "existsSync f p = (node_at f p \<noteq> None)"

definition readFileSync :: "filesystem \<Rightarrow> path \<Rightarrow> error + string" where
  "readFileSync f p =
     (case node_at f p of
        None \<Rightarrow> Inl (IOError ENOENT)
      | Some Dir \<Rightarrow> Inl (IOError EISDIR)
      | Some (File s) \<Rightarrow> Inr s)"

text \<open>\<^verbatim>\<open>fs.mkdirSync(p)\<close> without \<^verbatim>\<open>{ recursive: true }\<close>: one level, parent required.\<close>

definition mkdirSync :: "filesystem \<Rightarrow> path \<Rightarrow> error + filesystem" where
  "mkdirSync f p =
     (if node_at f p \<noteq> None then Inl (IOError EEXIST)
      else case node_at f (dirname p) of
        None \<Rightarrow> Inl (IOError ENOENT)
      | Some (File s) \<Rightarrow> Inl (IOError ENOTDIR)
      | Some Dir \<Rightarrow>
          if denied f p then Inl (IOError EACCES)
          else Inr (f\<lparr>nodes := (nodes f)(p \<mapsto> Dir)\<rparr>))"

text \<open>\<^verbatim>\<open>fs.writeFileSync(p, s)\<close>: creates or replaces the file, never a directory.\<close>

definition writeFileSync :: "filesystem \<Rightarrow> path \<Rightarrow> string \<Rightarrow> error + filesystem" where
  "writeFileSync f p s =
     (case node_at f p of
        Some Dir \<Rightarrow> Inl (IOError EISDIR)
      | _ \<Rightarrow>
         (case node_at f (dirname p) of
            None \<Rightarrow> Inl (IOError ENOENT)
          | Some (File t) \<Rightarrow> Inl (IOError ENOTDIR)
          | Some Dir \<Rightarrow>
              if denied f p then Inl (IOError EACCES)
              else Inr (f\<lparr>nodes := (nodes f)(p \<mapsto> File s)\<rparr>)))"

text \<open>
  The two steps of a write, for the writes that do not block: opening the file for
  writing (\<^verbatim>\<open>'w'\<close>: the file is created or truncated, and every error above is
  raised here), and writing the data through the descriptor, from its position 0, over
  whatever the file holds by then. \<^verbatim>\<open>writeFileSync\<close> is the one after the other.
\<close>

definition open_w :: "filesystem \<Rightarrow> path \<Rightarrow> error + filesystem" where
  "open_w f p =
     (case node_at f p of
        Some Dir \<Rightarrow> Inl (IOError EISDIR)
      | _ \<Rightarrow>
         (case node_at f (dirname p) of
            None \<Rightarrow> Inl (IOError ENOENT)
          | Some (File t) \<Rightarrow> Inl (IOError ENOTDIR)
          | Some Dir \<Rightarrow>
              if denied f p then Inl (IOError EACCES)
              else Inr (f\<lparr>nodes := (nodes f)(p \<mapsto> File [])\<rparr>)))"

definition write_fd :: "filesystem \<Rightarrow> path \<Rightarrow> string \<Rightarrow> filesystem" where
  "write_fd f p s =
     f\<lparr>nodes := (nodes f)(p \<mapsto>
        File (s @ drop (length s) (case nodes f p of Some (File old) \<Rightarrow> old | _ \<Rightarrow> [])))\<rparr>"

section \<open>Objects and the \<^verbatim>\<open>Reflect\<close> operations of the traps\<close>

text \<open>
  The wrapped target is an ordinary object with own data properties (in creation order),
  each with its attributes, and an extensibility flag. \<^verbatim>\<open>Reflect.set\<close> refuses a
  non-writable property and a new property on a non-extensible object;
  \<^verbatim>\<open>Reflect.deleteProperty\<close> refuses a non-configurable property. Accessor
  properties and properties found on the prototype chain are outside this model.
\<close>

record 'v property =
  pvalue :: 'v
  writable :: bool
  enumerable :: bool
  configurable :: bool

record 'v jsobject =
  props :: "(string \<times> 'v property) list"
  extensible :: bool

definition data_property :: "'v \<Rightarrow> 'v property" where
  "data_property v = \<lparr>pvalue = v, writable = True, enumerable = True, configurable = True\<rparr>"

definition Reflect_get :: "'v jsobject \<Rightarrow> string \<Rightarrow> 'v option" where
  "Reflect_get target prop = map_option pvalue (map_of (props target) prop)"

definition Reflect_has :: "'v jsobject \<Rightarrow> string \<Rightarrow> bool" where
  "Reflect_has target prop = (map_of (props target) prop \<noteq> None)"

definition Reflect_ownKeys :: "'v jsobject \<Rightarrow> string list" where
  "Reflect_ownKeys target = map fst (props target)"

definition Reflect_set :: "'v jsobject \<Rightarrow> string \<Rightarrow> 'v \<Rightarrow> bool \<times> 'v jsobject" where
  "Reflect_set target prop v =
     (case map_of (props target) prop of
        Some d \<Rightarrow>
          if writable d
          then (True, target\<lparr>props := AList.update prop (d\<lparr>pvalue := v\<rparr>) (props target)\<rparr>)
          else (False, target)
      | None \<Rightarrow>
          if extensible target
          then (True, target\<lparr>props := AList.update prop (data_property v) (props target)\<rparr>)
          else (False, target))"

definition Reflect_deleteProperty :: "'v jsobject \<Rightarrow> string \<Rightarrow> bool \<times> 'v jsobject" where
  "Reflect_deleteProperty target prop =
     (case map_of (props target) prop of
        None \<Rightarrow> (True, target)
      | Some d \<Rightarrow>
          if configurable d
          then (True, target\<lparr>props := AList.delete prop (props target)\<rparr>)
          else (False, target))"

section \<open>Timers: \<^verbatim>\<open>setTimeout\<close>, \<^verbatim>\<open>clearTimeout\<close> and \<^verbatim>\<open>createLazyTimer\<close>\<close>

text \<open>
  The runtime's timer table on a logical clock in milliseconds: an armed timer is a pair
  of its id and its deadline, ids are never reused, and a timer fires when the clock
  reaches its deadline. All timers of the table run the same callback. A delay is a whole
  number of milliseconds; as Node does, \<^verbatim>\<open>setTimeout\<close> arms the timer 1 ms ahead
  when the delay is below 1 or above \<^verbatim>\<open>TIMEOUT_MAX\<close>, which is \<open>2^31 - 1\<close>.
\<close>

definition TIMEOUT_MAX :: nat where
  "TIMEOUT_MAX = 2147483647"

definition timer_after :: "nat \<Rightarrow> nat" where
  "timer_after ms = (if 1 \<le> ms \<and> ms \<le> TIMEOUT_MAX then ms else 1)"

record timer_table =
  now :: nat
  fresh :: nat
  armed :: "(nat \<times> nat) list"

definition setTimeout :: "nat \<Rightarrow> timer_table \<Rightarrow> nat \<times> timer_table" where
  "setTimeout ms rt =
     (fresh rt, rt\<lparr>fresh := Suc (fresh rt), armed := armed rt @ [(fresh rt, now rt + timer_after ms)]\<rparr>)"

definition clearTimeout :: "nat option \<Rightarrow> timer_table \<Rightarrow> timer_table" where
  "clearTimeout t rt =
     (case t of
        None \<Rightarrow> rt
      | Some i \<Rightarrow> rt\<lparr>armed := filter (\<lambda>e. fst e \<noteq> i) (armed rt)\<rparr>)"

text \<open>
  \<^verbatim>\<open>createLazyTimer(time, callback)\<close> returns a closure over \<^verbatim>\<open>let timeout\<close>;
  the closure's state is the record, \<open>lazyTimer_call\<close> is a call of the closure.
\<close>

record lazyTimer =
  time :: nat
  timeout :: "nat option"

definition createLazyTimer :: "nat \<Rightarrow> lazyTimer" where
  "createLazyTimer ms = \<lparr>time = ms, timeout = None\<rparr>"

definition lazyTimer_call :: "lazyTimer \<Rightarrow> timer_table \<Rightarrow> lazyTimer \<times> timer_table" where
  "lazyTimer_call lz rt =
     (let rt1 = clearTimeout (timeout lz) rt;
          (i, rt2) = setTimeout (time lz) rt1
      in (lz\<lparr>timeout := Some i\<rparr>, rt2))"

text \<open>
  Letting \<open>dt\<close> milliseconds pass: the timers whose deadline is reached leave the table,
  and the instants at which their callback runs are returned, in arming order.
\<close>

definition advance :: "nat \<Rightarrow> timer_table \<Rightarrow> nat list \<times> timer_table" where
  "advance dt rt =
     (let t = now rt + dt
      in (map snd (filter (\<lambda>e. snd e \<le> t) (armed rt)),
          rt\<lparr>now := t, armed := filter (\<lambda>e. \<not> snd e \<le> t) (armed rt)\<rparr>))"

section \<open>The world outside the handle\<close>

text \<open>
  The disk, the timer table, and the writes that \<^verbatim>\<open>fsp.writeFile\<close> has started and
  not finished, each with the text it carries: in \<open>inflight\<close> those that have not opened
  the file yet, in the order in which they were started, and in \<open>opened\<close> those that have
  opened it and not written their data yet.
\<close>

record world =
  fs :: filesystem
  timers :: timer_table
  inflight :: "(path \<times> string) list"
  opened :: "(path \<times> string) list"

section \<open>\<^verbatim>\<open>ObjectSync\<close> (index.ts)\<close>

record 'v format =
  fmt_stringify :: "'v jsobject \<Rightarrow> string"
  fmt_parse :: "string \<Rightarrow> error + 'v jsobject"

datatype save_setting = Sync | Async | Number nat

record 'v SyncedObjectSettings =
  opt_recursive :: "bool option"
  opt_format :: "'v format option"
  opt_save :: "save_setting option"

text \<open>The three functions the field \<^verbatim>\<open>save\<close> can hold.\<close>

datatype save_method = SaveSync | SaveAsync | TimerCall

record 'v ObjectSync =
  fileLocation :: path
  content :: "'v jsobject"
  recursive :: bool
  stringify :: "'v jsobject \<Rightarrow> string"
  parse :: "string \<Rightarrow> error + 'v jsobject"
  timerCall :: lazyTimer
  save :: save_method

text \<open>
  The constructor. \<open>JSON\<close> is the default codec (\<^verbatim>\<open>JSON.parse\<close>,
  \<^verbatim>\<open>JSON.stringify\<close>), a parameter. The field initialiser
  \<^verbatim>\<open>save = this.saveSync\<close> runs before the body. An exception leaves the
  constructor with what was done to the disk before it, and no object.
\<close>

definition constructor ::
  "'v format \<Rightarrow> 'v jsobject \<Rightarrow> path \<Rightarrow> 'v SyncedObjectSettings \<Rightarrow> world
     \<Rightarrow> (error + 'v ObjectSync) \<times> world" where
  "constructor JSON target location settings w =
     (let self = \<lparr>fileLocation = location,
                  content = target,
                  recursive = (case opt_recursive settings of Some b \<Rightarrow> b | None \<Rightarrow> False),
                  stringify = (case opt_format settings of
                                 Some f \<Rightarrow> fmt_stringify f | None \<Rightarrow> fmt_stringify JSON),
                  parse = (case opt_format settings of
                             Some f \<Rightarrow> fmt_parse f | None \<Rightarrow> fmt_parse JSON),
                  timerCall = createLazyTimer
                                (case opt_save settings of Some (Number n) \<Rightarrow> n | _ \<Rightarrow> 1000),
                  save = SaveSync\<rparr>;
          exists = existsSync (fs w) (fileLocation self)
      in case (if recursive self \<and> \<not> exists
                  \<and> \<not> existsSync (fs w) (dirname (fileLocation self))
               then mkdirSync (fs w) (dirname (fileLocation self))
               else Inr (fs w)) of
           Inl e \<Rightarrow> (Inl e, w)
         | Inr fs1 \<Rightarrow>
            (case (if exists
                   then (case readFileSync fs1 (fileLocation self) of
                           Inl e \<Rightarrow> Inl e
                         | Inr text \<Rightarrow>
                            (case parse self text of
                               Inl e \<Rightarrow> Inl e
                             | Inr c \<Rightarrow> Inr (self\<lparr>content := c\<rparr>, fs1)))
                   else (case writeFileSync fs1 (fileLocation self)
                                (stringify self (content self)) of
                           Inl e \<Rightarrow> Inl e
                         | Inr fs2 \<Rightarrow> Inr (self, fs2))) of
               Inl e \<Rightarrow> (Inl e, w\<lparr>fs := fs1\<rparr>)
             | Inr (self1, fs2) \<Rightarrow>
                (let self2 = (if opt_save settings = Some Async
                              then self1\<lparr>save := SaveAsync\<rparr> else self1);
                     self3 = (case opt_save settings of
                                Some (Number n) \<Rightarrow> self2\<lparr>save := TimerCall\<rparr>
                              | _ \<Rightarrow> self2)
                 in (Inr self3, w\<lparr>fs := fs2\<rparr>))))"

text \<open>
  \<^verbatim>\<open>wrap\<close> returns a Proxy over \<^verbatim>\<open>self.content\<close> whose traps close over
  \<^verbatim>\<open>self\<close>: the view is the handle, seen through the traps below.
\<close>

definition wrap ::
  "'v format \<Rightarrow> 'v jsobject \<Rightarrow> path \<Rightarrow> 'v SyncedObjectSettings \<Rightarrow> world
     \<Rightarrow> (error + 'v ObjectSync) \<times> world" where
  "wrap JSON target location settings w = constructor JSON target location settings w"

subsection \<open>The save methods\<close>

definition saveSync :: "'v ObjectSync \<Rightarrow> world \<Rightarrow> (error + unit) \<times> world" where
  "saveSync self w =
     (let text = stringify self (content self)
      in case writeFileSync (fs w) (fileLocation self) text of
           Inl e \<Rightarrow> (Inl e, w)
         | Inr fs1 \<Rightarrow> (Inr (), w\<lparr>fs := fs1\<rparr>))"

text \<open>
  \<^verbatim>\<open>saveAsync\<close> runs up to its \<^verbatim>\<open>await\<close>: the content is serialised now and the
  write is started. The rest of it is \<open>settle\<close>.
\<close>

definition saveAsync :: "'v ObjectSync \<Rightarrow> world \<Rightarrow> world" where
  "saveAsync self w =
     (let text = stringify self (content self)
      in w\<lparr>inflight := inflight w @ [(fileLocation self, text)]\<rparr>)"

text \<open>\<^verbatim>\<open>self.save()\<close>: whichever function the constructor left in the field.\<close>

definition save_call ::
  "'v ObjectSync \<Rightarrow> world \<Rightarrow> (error + unit) \<times> 'v ObjectSync \<times> world" where
  "save_call self w =
     (case save self of
        SaveSync \<Rightarrow> (case saveSync self w of (r, w1) \<Rightarrow> (r, self, w1))
      | SaveAsync \<Rightarrow> (Inr (), self, saveAsync self w)
      | TimerCall \<Rightarrow>
          (case lazyTimer_call (timerCall self) (timers w) of
             (lz, rt) \<Rightarrow> (Inr (), self\<lparr>timerCall := lz\<rparr>, w\<lparr>timers := rt\<rparr>)))"

subsection \<open>The traps of the Proxy\<close>

definition trap_get ::
  "'v ObjectSync \<Rightarrow> world \<Rightarrow> string \<Rightarrow> 'v option \<times> 'v ObjectSync \<times> world" where
  "trap_get self w prop = (Reflect_get (content self) prop, self, w)"

definition trap_has ::
  "'v ObjectSync \<Rightarrow> world \<Rightarrow> string \<Rightarrow> bool \<times> 'v ObjectSync \<times> world" where
  "trap_has self w prop = (Reflect_has (content self) prop, self, w)"

definition trap_ownKeys ::
  "'v ObjectSync \<Rightarrow> world \<Rightarrow> string list \<times> 'v ObjectSync \<times> world" where
  "trap_ownKeys self w = (Reflect_ownKeys (content self), self, w)"

definition trap_set ::
  "'v ObjectSync \<Rightarrow> world \<Rightarrow> string \<Rightarrow> 'v \<Rightarrow> (error + bool) \<times> 'v ObjectSync \<times> world" where
  "trap_set self w prop v =
     (case Reflect_set (content self) prop v of
        (wasSet, c) \<Rightarrow>
          (case save_call (self\<lparr>content := c\<rparr>) w of
             (Inl e, self1, w1) \<Rightarrow> (Inl e, self1, w1)
           | (Inr u, self1, w1) \<Rightarrow> (Inr wasSet, self1, w1)))"

definition trap_deleteProperty ::
  "'v ObjectSync \<Rightarrow> world \<Rightarrow> string \<Rightarrow> (error + bool) \<times> 'v ObjectSync \<times> world" where
  "trap_deleteProperty self w prop =
     (case Reflect_deleteProperty (content self) prop of
        (wasDeleted, c) \<Rightarrow>
          (case save_call (self\<lparr>content := c\<rparr>) w of
             (Inl e, self1, w1) \<Rightarrow> (Inl e, self1, w1)
           | (Inr u, self1, w1) \<Rightarrow> (Inr wasDeleted, self1, w1)))"

subsection \<open>What happens between the caller's turns\<close>

text \<open>
  Time passing: every timer that fires runs \<^verbatim>\<open>() => this.saveAsync()\<close>.
\<close>

definition tick :: "nat \<Rightarrow> 'v ObjectSync \<Rightarrow> world \<Rightarrow> world" where
  "tick dt self w =
     (case advance dt (timers w) of
        (fired, rt) \<Rightarrow> fold (\<lambda>t. saveAsync self) fired (w\<lparr>timers := rt\<rparr>))"

text \<open>
  \<^verbatim>\<open>saveAsync\<close> after its \<^verbatim>\<open>await\<close>, one step of \<^verbatim>\<open>fsp.writeFile\<close> at a
  time. Nothing orders the writes: any of them may take its next step. The write number
  \<open>i\<close> of those in flight opens the file; when the open fails the error lands in
  \<^verbatim>\<open>catch {}\<close> and the write is over.
\<close>

definition open_write :: "nat \<Rightarrow> world \<Rightarrow> world" where
  "open_write i w =
     (if i < length (inflight w)
      then (let (p, text) = inflight w ! i;
                w1 = w\<lparr>inflight := take i (inflight w) @ drop (Suc i) (inflight w)\<rparr>
            in case open_w (fs w) p of
                 Inl e \<Rightarrow> w1
               | Inr fs1 \<Rightarrow> w1\<lparr>fs := fs1, opened := opened w @ [(p, text)]\<rparr>)
      else w)"

text \<open>
  The write number \<open>j\<close> of those that have opened the file writes its data and closes:
  the write is over.
\<close>

definition write_data :: "nat \<Rightarrow> world \<Rightarrow> world" where
  "write_data j w =
     (if j < length (opened w)
      then (let (p, text) = opened w ! j
            in w\<lparr>fs := write_fd (fs w) p text,
                 opened := take j (opened w) @ drop (Suc j) (opened w)\<rparr>)
      else w)"

text \<open>
  The write number \<open>i\<close> of those in flight runs alone: it opens the file and, when that
  succeeded, writes its data before any other write takes a step.
\<close>

definition settle :: "nat \<Rightarrow> world \<Rightarrow> world" where
  "settle i w = write_data (length (opened w)) (open_write i w)"

section \<open>\<^verbatim>\<open>ObjectFile\<close> (the second entry point)\<close>

text \<open>
  The class has the fields and the methods of \<^verbatim>\<open>ObjectSync\<close>, so it shares the record,
  the save methods and the traps; its constructor reads the path and the default content
  from the settings.
\<close>

record 'v ObjectFileSettings =
  set_fileLocation :: path
  set_defaultContent :: "'v jsobject"
  set_recursive :: "bool option"
  set_format :: "'v format option"
  set_save :: "save_setting option"

definition ObjectFile_constructor ::
  "'v format \<Rightarrow> 'v ObjectFileSettings \<Rightarrow> world \<Rightarrow> (error + 'v ObjectSync) \<times> world" where
  "ObjectFile_constructor JSON settings w =
     (let self = \<lparr>fileLocation = set_fileLocation settings,
                  content = set_defaultContent settings,
                  recursive = (case set_recursive settings of Some b \<Rightarrow> b | None \<Rightarrow> False),
                  stringify = (case set_format settings of
                                 Some f \<Rightarrow> fmt_stringify f | None \<Rightarrow> fmt_stringify JSON),
                  parse = (case set_format settings of
                             Some f \<Rightarrow> fmt_parse f | None \<Rightarrow> fmt_parse JSON),
                  timerCall = createLazyTimer
                                (case set_save settings of Some (Number n) \<Rightarrow> n | _ \<Rightarrow> 1000),
                  save = SaveSync\<rparr>;
          exists = existsSync (fs w) (fileLocation self)
      in case (if recursive self \<and> \<not> exists
                  \<and> \<not> existsSync (fs w) (dirname (fileLocation self))
               then mkdirSync (fs w) (dirname (fileLocation self))
               else Inr (fs w)) of
           Inl e \<Rightarrow> (Inl e, w)
         | Inr fs1 \<Rightarrow>
            (case (if exists
                   then (case readFileSync fs1 (fileLocation self) of
                           Inl e \<Rightarrow> Inl e
                         | Inr text \<Rightarrow>
                            (case parse self text of
                               Inl e \<Rightarrow> Inl e
                             | Inr c \<Rightarrow> Inr (self\<lparr>content := c\<rparr>, fs1)))
                   else (case writeFileSync fs1 (fileLocation self)
                                (stringify self (content self)) of
                           Inl e \<Rightarrow> Inl e
                         | Inr fs2 \<Rightarrow> Inr (self, fs2))) of
               Inl e \<Rightarrow> (Inl e, w\<lparr>fs := fs1\<rparr>)
             | Inr (self1, fs2) \<Rightarrow>
                (let self2 = (if set_save settings = Some Async
                              then self1\<lparr>save := SaveAsync\<rparr> else self1);
                     self3 = (case set_save settings of
                                Some (Number n) \<Rightarrow> self2\<lparr>save := TimerCall\<rparr>
                              | _ \<Rightarrow> self2)
                 in (Inr self3, w\<lparr>fs := fs2\<rparr>))))"

definition ObjectFile_create ::
  "'v format \<Rightarrow> 'v ObjectFileSettings \<Rightarrow> world \<Rightarrow> (error + 'v ObjectSync) \<times> world" where
  "ObjectFile_create JSON settings w = ObjectFile_constructor JSON settings w"

section \<open>Callers\<close>

text \<open>The codec in force: \<^verbatim>\<open>settings.format\<close> when given, the default otherwise.\<close>

definition format_of :: "'v format \<Rightarrow> 'v SyncedObjectSettings \<Rightarrow> 'v format" where
  "format_of JSON settings = (case opt_format settings of Some f \<Rightarrow> f | None \<Rightarrow> JSON)"

text \<open>
  A caller's assignments and deletions through the view, one after the other; an
  exception ends the sequence where it is thrown.
\<close>

datatype 'v mutation = Assign string 'v | Delete string

definition mutate ::
  "'v ObjectSync \<Rightarrow> world \<Rightarrow> 'v mutation \<Rightarrow> (error + bool) \<times> 'v ObjectSync \<times> world" where
  "mutate self w m =
     (case m of
        Assign prop v \<Rightarrow> trap_set self w prop v
      | Delete prop \<Rightarrow> trap_deleteProperty self w prop)"

fun mutations ::
  "'v ObjectSync \<Rightarrow> world \<Rightarrow> 'v mutation list
     \<Rightarrow> (error + bool list) \<times> 'v ObjectSync \<times> world" where
  "mutations self w [] = (Inr [], self, w)"
| "mutations self w (m # ms) =
     (case mutate self w m of
        (Inl e, self1, w1) \<Rightarrow> (Inl e, self1, w1)
      | (Inr b, self1, w1) \<Rightarrow>
          (case mutations self1 w1 ms of
             (Inl e, self2, w2) \<Rightarrow> (Inl e, self2, w2)
           | (Inr bs, self2, w2) \<Rightarrow> (Inr (b # bs), self2, w2)))"

text \<open>
  A history of one trigger: calls of the closure and waits. \<open>run\<close> returns the instants
  at which the callback ran. A burst is a call followed by calls after the given gaps.
\<close>

datatype ev = Call | Wait nat

fun run :: "ev list \<Rightarrow> lazyTimer \<times> timer_table \<Rightarrow> nat list \<times> lazyTimer \<times> timer_table" where
  "run [] s = ([], s)"
| "run (Call # es) (lz, rt) = run es (lazyTimer_call lz rt)"
| "run (Wait dt # es) (lz, rt) =
     (case advance dt rt of
        (fired, rt1) \<Rightarrow>
          (case run es (lz, rt1) of (fired1, s) \<Rightarrow> (fired @ fired1, s)))"

definition burst :: "nat list \<Rightarrow> ev list" where
  "burst gaps = Call # concat (map (\<lambda>g. [Wait g, Call]) gaps)"

text \<open>
  The writes in flight run one at a time, each alone, in the order in which they were
  started.
\<close>

definition drain :: "world \<Rightarrow> world" where
  "drain w = (settle 0 ^^ length (inflight w)) w"

text \<open>
  A history of a handle: mutations by the caller (who goes on after an exception), time
  passing, and the steps of the writes, in any order: a write in flight opening the
  file, a write that has opened it writing its data, and (\<open>Finish\<close>) the oldest write
  in flight running alone. In a history made of \<open>in_turn\<close> steps no two writes overlap
  and the writes run in the order in which they were started. \<open>quiesce\<close> lets the
  pending timer fire and then every write in flight run in that way.
\<close>

datatype 'v step = Mutation "'v mutation" | Elapse nat | Open nat | Data nat | Finish



definition quiesce :: "'v ObjectSync \<Rightarrow> world \<Rightarrow> world" where
  "quiesce self w = drain (tick (Suc (time (timerCall self))) self w)"


section \<open>A format for the examples\<close>

text \<open>
  A caller's \<^verbatim>\<open>format\<close> for string values, \<^verbatim>\<open>key=value;\<close> per enumerable property.
  Like most formats it cannot represent every value: a \<^verbatim>\<open>;\<close> inside a value reads
  back as the end of a property.
\<close>

fun split_on :: "char \<Rightarrow> string \<Rightarrow> string list" where
  "split_on c [] = [[]]"
| "split_on c (x # xs) =
     (if x = c then [] # split_on c xs
      else (case split_on c xs of
              [] \<Rightarrow> [[x]]
            | y # ys \<Rightarrow> (x # y) # ys))"

definition kv_stringify :: "string jsobject \<Rightarrow> string" where
  "kv_stringify data =
     concat (map (\<lambda>(k, d). k @ ''='' @ pvalue d @ '';'')
                 (filter (\<lambda>(k, d). enumerable d) (props data)))"

fun kv_fields :: "string list \<Rightarrow> error + (string \<times> string property) list" where
  "kv_fields [] = Inr []"
| "kv_fields (seg # segs) =
     (if seg = [] then kv_fields segs
      else if CHR ''='' \<notin> set seg then Inl (FormatError seg)
      else (case kv_fields segs of
              Inl e \<Rightarrow> Inl e
            | Inr kvs \<Rightarrow>
                Inr ((takeWhile (\<lambda>c. c \<noteq> CHR ''='') seg,
                      data_property (tl (dropWhile (\<lambda>c. c \<noteq> CHR ''='') seg))) # kvs)))"

definition kv_parse :: "string \<Rightarrow> error + string jsobject" where
  "kv_parse text =
     (case kv_fields (split_on CHR '';'' text) of
        Inl e \<Rightarrow> Inl e
      | Inr kvs \<Rightarrow> Inr \<lparr>props = kvs, extensible = True\<rparr>)"

definition kv_format :: "string format" where
  "kv_format = \<lparr>fmt_stringify = kv_stringify, fmt_parse = kv_parse\<rparr>"

text \<open>An empty disk (the root only), nothing denied, no timer, no write started.\<close>

definition empty_world :: world where
  "empty_world =
     \<lparr>fs = \<lparr>nodes = (\<lambda>p. None), denied = (\<lambda>p. False)\<rparr>,
      timers = \<lparr>now = 0, fresh = 0, armed = []\<rparr>,
      inflight = [], opened = []\<rparr>"

definition settings_of :: "bool \<Rightarrow> save_setting \<Rightarrow> string SyncedObjectSettings" where
  "settings_of r s = \<lparr>opt_recursive = Some r, opt_format = Some kv_format, opt_save = Some s\<rparr>"

definition object_of :: "(string \<times> string) list \<Rightarrow> string jsobject" where
  "object_of kvs = \<lparr>props = map (\<lambda>(k, v). (k, data_property v)) kvs, extensible = True\<rparr>"

definition put_file :: "path \<Rightarrow> string \<Rightarrow> world \<Rightarrow> world" where
  "put_file p s w = w\<lparr>fs := (fs w)\<lparr>nodes := (nodes (fs w))(p \<mapsto> File s)\<rparr>\<rparr>"

definition deny :: "path \<Rightarrow> world \<Rightarrow> world" where
  "deny p w = w\<lparr>fs := (fs w)\<lparr>denied := (denied (fs w))(p := True)\<rparr>\<rparr>"

text \<open>\<^verbatim>\<open>Object.freeze\<close> of an object: nothing writable, configurable or extensible.\<close>

definition frozen_of :: "(string \<times> string) list \<Rightarrow> string jsobject" where
  "frozen_of kvs =
     \<lparr>props = map (\<lambda>(k, v). (k, \<lparr>pvalue = v, writable = False, enumerable = True,
                                   configurable = False\<rparr>)) kvs,
      extensible = False\<rparr>"

text \<open>The handle that \<^verbatim>\<open>wrap\<close> makes at \<^verbatim>\<open>/cfg\<close> for the given content.\<close>

definition handle_of :: "string jsobject \<Rightarrow> save_method \<Rightarrow> nat \<Rightarrow> string ObjectSync" where
  "handle_of c m ms =
     \<lparr>fileLocation = [''cfg''], content = c, recursive = False,
      stringify = kv_stringify, parse = kv_parse,
      timerCall = createLazyTimer ms, save = m\<rparr>"

text \<open>The content \<^verbatim>\<open>{ count: "0" }\<close>, and the disk once it has been saved at \<^verbatim>\<open>/cfg\<close>.\<close>

definition counter :: "string jsobject" where
  "counter = object_of [(''count'', ''0'')]"

definition counter_world :: world where
  "counter_world = put_file [''cfg''] ''count=0;'' empty_world"


text \<open>
  The timers of the table belong to the closure: none is armed, or the one whose id the
  closure holds in \<^verbatim>\<open>timeout\<close>.
\<close>

definition owned :: "lazyTimer \<times> timer_table \<Rightarrow> bool" where
  "owned s =
     (case armed (snd s) of
        [] \<Rightarrow> True
      | [e] \<Rightarrow> timeout (fst s) = Some (fst e)
      | e # e1 # es \<Rightarrow> False)"



section \<open>Facts about the filesystem calls\<close>

lemma writeFileSync_read:
  "writeFileSync f p s = Inr f1 \<Longrightarrow> readFileSync f1 p = Inr s"
  by (auto simp: writeFileSync_def readFileSync_def node_at_def
           split: option.splits node.splits if_splits)

lemma writeFileSync_ok:
  "node_at f p \<noteq> Some Dir \<Longrightarrow> node_at f (dirname p) = Some Dir \<Longrightarrow> \<not> denied f p
     \<Longrightarrow> writeFileSync f p s = Inr (f\<lparr>nodes := (nodes f)(p \<mapsto> File s)\<rparr>)"
  by (auto simp: writeFileSync_def split: option.splits node.splits)

lemma writeFileSync_steps:
  "writeFileSync f p s =
     (case open_w f p of Inl e \<Rightarrow> Inl e | Inr f1 \<Rightarrow> Inr (write_fd f1 p s))"
  by (auto simp: writeFileSync_def open_w_def write_fd_def split: option.splits node.splits)

text \<open>A write that runs alone is \<^verbatim>\<open>writeFileSync\<close> at the moment it runs.\<close>

lemma settle_alone:
  "settle i w =
     (if i < length (inflight w)
      then (let (p, text) = inflight w ! i;
                w1 = w\<lparr>inflight := take i (inflight w) @ drop (Suc i) (inflight w)\<rparr>
            in case writeFileSync (fs w) p text of
                 Inl e \<Rightarrow> w1
               | Inr fs1 \<Rightarrow> w1\<lparr>fs := fs1\<rparr>)
      else w)"
  by (cases w)
     (auto simp: settle_def open_write_def write_data_def writeFileSync_steps Let_def
           split: prod.splits sum.splits)

lemma timer_after_range: "1 \<le> ms \<Longrightarrow> ms \<le> TIMEOUT_MAX \<Longrightarrow> timer_after ms = ms"
  by (simp add: timer_after_def)


lemmas fs_defs =
  existsSync_def node_at_def dirname_def readFileSync_def writeFileSync_def mkdirSync_def
  open_w_def write_fd_def

lemmas example_defs =
  empty_world_def settings_of_def object_of_def kv_format_def kv_stringify_def kv_parse_def
  data_property_def format_of_def put_file_def deny_def frozen_of_def handle_of_def
  counter_def counter_world_def createLazyTimer_def

lemmas obj_defs =
  Reflect_get_def Reflect_has_def Reflect_ownKeys_def Reflect_set_def Reflect_deleteProperty_def

lemmas save_defs =
  save_call_def saveSync_def saveAsync_def trap_set_def trap_deleteProperty_def mutate_def

lemmas timer_defs = lazyTimer_call_def clearTimeout_def setTimeout_def advance_def burst_def
  tick_def settle_alone drain_def quiesce_def timer_after_def TIMEOUT_MAX_def

section \<open>Construction\<close>

lemma constructor_absent:
  assumes "\<not> existsSync (fs w) location"
      and "constructor JSON target location settings w = (Inr self, w1)"
  shows "content self = target
          \<and> readFileSync (fs w1) location = Inr (fmt_stringify (format_of JSON settings) target)"
  using assms
  by (auto simp: constructor_def Let_def format_of_def dest!: writeFileSync_read
      split: sum.splits option.splits if_splits save_setting.splits prod.splits)

lemma constructor_absent_ok:
  assumes "\<not> existsSync (fs w) location" "node_at (fs w) (dirname location) = Some Dir"
     "\<not> denied (fs w) location"
  shows "\<exists>self w1. constructor JSON target location settings w = (Inr self, w1)"
  using assms
  by (auto simp: constructor_def Let_def existsSync_def writeFileSync_ok
      split: sum.splits option.splits if_splits save_setting.splits prod.splits)

lemma constructor_present_fail:
  assumes "readFileSync (fs w) location = Inr text"
      and "fmt_parse (format_of JSON settings) text = Inl e"
  shows "constructor JSON target location settings w = (Inl e, w)"
  using assms
  by (auto simp: constructor_def Let_def format_of_def existsSync_def readFileSync_def
      split: sum.splits option.splits if_splits save_setting.splits prod.splits node.splits)

lemma constructor_present_ok:
  assumes "readFileSync (fs w) location = Inr text"
      and "fmt_parse (format_of JSON settings) text = Inr c"
  shows "\<exists>self. constructor JSON target location settings w = (Inr self, w) \<and> content self = c"
  using assms
  by (auto simp: constructor_def Let_def format_of_def existsSync_def readFileSync_def
      split: sum.splits option.splits if_splits save_setting.splits prod.splits node.splits)

text \<open>The two entry points are one: \<^verbatim>\<open>ObjectFile.create\<close> is \<^verbatim>\<open>ObjectSync.wrap\<close>
  on the same path, default content and options.\<close>

lemma create_is_wrap:
  "ObjectFile_create JSON settings w =
     wrap JSON (set_defaultContent settings) (set_fileLocation settings)
       \<lparr>opt_recursive = set_recursive settings, opt_format = set_format settings,
        opt_save = set_save settings\<rparr> w"
  by (simp add: ObjectFile_create_def ObjectFile_constructor_def wrap_def constructor_def
           cong: sum.case_cong prod.case_cong if_cong)

text \<open>
  The handles of the examples are those \<^verbatim>\<open>wrap\<close> makes on the empty disk, one for each
  strategy, and \<open>counter_world\<close> is the world it leaves.
\<close>

lemma wrap_counter:
  "wrap kv_format counter [''cfg''] (settings_of False Sync) empty_world
     = (Inr (handle_of counter SaveSync 1000), counter_world)"
  "wrap kv_format counter [''cfg''] (settings_of False Async) empty_world
     = (Inr (handle_of counter SaveAsync 1000), counter_world)"
  "wrap kv_format counter [''cfg''] (settings_of False (Number 50)) empty_world
     = (Inr (handle_of counter TimerCall 50), counter_world)"
  by (simp_all add: wrap_def constructor_def example_defs fs_defs)

text \<open>
  C2. When nothing exists at the path, a construction that returns has written
  \<^verbatim>\<open>stringify(defaultContent)\<close> to the path, and the handle (and so the view) holds
  the default content itself, whatever the codec would read back from that text. It does
  return when the parent directory exists and the path may be written.
\<close>

theorem bootstrap_absent_file:
  assumes "\<not> existsSync (fs w) location"
  shows "(\<forall>self w1. wrap JSON target location settings w = (Inr self, w1) \<longrightarrow>
            content self = target \<and>
            readFileSync (fs w1) location = Inr (fmt_stringify (format_of JSON settings) target))
       \<and> (node_at (fs w) (dirname location) = Some Dir \<and> \<not> denied (fs w) location \<longrightarrow>
            (\<exists>self w1. wrap JSON target location settings w = (Inr self, w1)))"
  using constructor_absent [OF assms] constructor_absent_ok [OF assms]
  unfolding wrap_def by blast

theorem bootstrap_absent_file_witness:
  "\<not> existsSync (fs empty_world) [''cfg''] \<and>
   (\<exists>self w1. wrap kv_format (object_of [(''a'', ''x;b=y'')]) [''cfg'']
                 (settings_of False Sync) empty_world = (Inr self, w1)
       \<and> content self = object_of [(''a'', ''x;b=y'')]
       \<and> readFileSync (fs w1) [''cfg''] = Inr ''a=x;b=y;'')
   \<and> kv_parse ''a=x;b=y;'' = Inr (object_of [(''a'', ''x''), (''b'', ''y'')])"
proof -
  have absent: "\<not> existsSync (fs empty_world) [''cfg'']"
    by (simp add: example_defs fs_defs)
  have parent: "node_at (fs empty_world) (dirname [''cfg'']) = Some Dir
                  \<and> \<not> denied (fs empty_world) [''cfg'']"
    by (simp add: example_defs fs_defs)
  have written: "fmt_stringify (format_of kv_format (settings_of False Sync))
                (object_of [(''a'', ''x;b=y'')]) = ''a=x;b=y;''"
    by (simp add: example_defs)
  have reread: "kv_parse ''a=x;b=y;'' = Inr (object_of [(''a'', ''x''), (''b'', ''y'')])"
    by (simp add: example_defs)
  note t = bootstrap_absent_file [OF absent, of kv_format "object_of [(''a'', ''x;b=y'')]"
             "settings_of False Sync"]
  from t parent obtain self w1 where
    ok: "wrap kv_format (object_of [(''a'', ''x;b=y'')]) [''cfg'']
           (settings_of False Sync) empty_world = (Inr self, w1)"
    by blast
  with t written have "content self = object_of [(''a'', ''x;b=y'')]
      \<and> readFileSync (fs w1) [''cfg''] = Inr ''a=x;b=y;''"
    by metis
  with ok absent reread show ?thesis by blast
qed

text \<open>
  C3. When a file exists at the path, construction reads its whole text and parses it:
  the parsed value becomes the content of the handle, and nothing else changes. When
  \<^verbatim>\<open>parse\<close> throws, construction ends with that error: there is no handle, and the
  world is as it was.
\<close>

theorem bootstrap_existing_file:
  assumes "readFileSync (fs w) location = Inr text"
  shows "(\<forall>e. fmt_parse (format_of JSON settings) text = Inl e \<longrightarrow>
            wrap JSON target location settings w = (Inl e, w))
       \<and> (\<forall>c. fmt_parse (format_of JSON settings) text = Inr c \<longrightarrow>
            (\<exists>self. wrap JSON target location settings w = (Inr self, w) \<and> content self = c))"
  using constructor_present_fail [OF assms] constructor_present_ok [OF assms]
  unfolding wrap_def by blast

theorem bootstrap_existing_file_witness:
  "readFileSync (fs (put_file [''cfg''] ''count=7;'' empty_world)) [''cfg''] = Inr ''count=7;''
   \<and> (\<exists>self. wrap kv_format (object_of []) [''cfg''] (settings_of False Sync)
                 (put_file [''cfg''] ''count=7;'' empty_world)
               = (Inr self, put_file [''cfg''] ''count=7;'' empty_world)
             \<and> content self = object_of [(''count'', ''7'')])
   \<and> readFileSync (fs (put_file [''cfg''] ''count'' empty_world)) [''cfg''] = Inr ''count''
   \<and> wrap kv_format (object_of []) [''cfg''] (settings_of False Sync)
        (put_file [''cfg''] ''count'' empty_world)
      = (Inl (FormatError ''count''), put_file [''cfg''] ''count'' empty_world)"
proof -
  have r1: "readFileSync (fs (put_file [''cfg''] ''count=7;'' empty_world)) [''cfg'']
              = Inr ''count=7;''"
    by (simp add: example_defs fs_defs)
  have p1: "fmt_parse (format_of kv_format (settings_of False Sync)) ''count=7;''
              = Inr (object_of [(''count'', ''7'')])"
    by (simp add: example_defs)
  have r2: "readFileSync (fs (put_file [''cfg''] ''count'' empty_world)) [''cfg'']
              = Inr ''count''"
    by (simp add: example_defs fs_defs)
  have p2: "fmt_parse (format_of kv_format (settings_of False Sync)) ''count''
              = Inl (FormatError ''count'')"
    by (simp add: example_defs)
  from bootstrap_existing_file [OF r1, of kv_format "settings_of False Sync" "object_of []"] p1
  have a: "\<exists>self. wrap kv_format (object_of []) [''cfg''] (settings_of False Sync)
                 (put_file [''cfg''] ''count=7;'' empty_world)
               = (Inr self, put_file [''cfg''] ''count=7;'' empty_world)
             \<and> content self = object_of [(''count'', ''7'')]"
    by blast
  from bootstrap_existing_file [OF r2, of kv_format "settings_of False Sync" "object_of []"] p2
  have b: "wrap kv_format (object_of []) [''cfg''] (settings_of False Sync)
        (put_file [''cfg''] ''count'' empty_world)
      = (Inl (FormatError ''count''), put_file [''cfg''] ''count'' empty_world)"
    by blast
  from r1 a r2 b show ?thesis by blast
qed

subsection \<open>The parent directory\<close>

lemma dirname_shorter: "p \<noteq> [] \<Longrightarrow> dirname p \<noteq> p"
  unfolding dirname_def
  by (metis length_butlast diff_less length_greater_0_conv less_irrefl zero_less_one)

text \<open>With \<^verbatim>\<open>recursive\<close>, a missing parent whose own parent exists is created.\<close>

lemma recursive_creates_parent:
  assumes "\<not> existsSync (fs w) location" "\<not> existsSync (fs w) (dirname location)"
      and "node_at (fs w) (dirname (dirname location)) = Some Dir"
      and "\<not> denied (fs w) (dirname location)" "\<not> denied (fs w) location"
      and "opt_recursive settings = Some True"
  shows "\<exists>self w1. wrap JSON target location settings w = (Inr self, w1)
            \<and> node_at (fs w1) (dirname location) = Some Dir
            \<and> readFileSync (fs w1) location = Inr (stringify self target)"
proof -
  have ne: "location \<noteq> []" "dirname location \<noteq> []"
    using assms(1,2) by (auto simp: existsSync_def node_at_def)
  then have d: "dirname location \<noteq> location" by (simp add: dirname_shorter)
  show ?thesis
    using assms ne d
    by (auto simp: wrap_def constructor_def Let_def existsSync_def mkdirSync_def
          writeFileSync_def readFileSync_def node_at_def
        split: option.splits save_setting.splits node.splits)
qed

text \<open>Without it, a missing parent makes the first write fail, and nothing is created.\<close>

lemma nonrecursive_fails:
  assumes "\<not> existsSync (fs w) location" "\<not> existsSync (fs w) (dirname location)"
      and "opt_recursive settings \<noteq> Some True"
  shows "wrap JSON target location settings w = (Inl (IOError ENOENT), w)"
  using assms
  by (auto simp: wrap_def constructor_def Let_def existsSync_def
          writeFileSync_def node_at_def
        split: option.splits save_setting.splits node.splits)

text \<open>
  C8. The parent folders are promised to be created as by
  \<^verbatim>\<open>fs.mkdir(..., { recursive: true })\<close>, but the constructor calls
  \<^verbatim>\<open>fs.mkdirSync(path.dirname(fileLocation))\<close> with no option. At \<^verbatim>\<open>/a/b/cfg\<close>
  on a disk without \<^verbatim>\<open>/a\<close>, with \<^verbatim>\<open>recursive: true\<close>, the file is absent and
  its parent is missing, and construction fails with \<^verbatim>\<open>ENOENT\<close>, leaving the disk as
  it was.
\<close>

theorem recursive_single_level:
  "wrap kv_format counter [''a'', ''b'', ''cfg''] (settings_of True Sync) empty_world
   = (Inl (IOError ENOENT), empty_world)"
  by (simp add: wrap_def constructor_def example_defs fs_defs)

section \<open>The traps\<close>

text \<open>
  C7. A read, an existence check and a key enumeration through the view return what the
  same \<^verbatim>\<open>Reflect\<close> operation returns on the content, and leave the handle and the world
  (the content, the disk, the timers, the writes in flight) exactly as they were.
\<close>

theorem read_transparency:
  "fst (trap_get self w prop) = Reflect_get (content self) prop
   \<and> fst (trap_has self w prop) = Reflect_has (content self) prop
   \<and> fst (trap_ownKeys self w) = Reflect_ownKeys (content self)
   \<and> snd (trap_get self w prop) = (self, w)
   \<and> snd (trap_has self w prop) = (self, w)
   \<and> snd (trap_ownKeys self w) = (self, w)"
  by (simp add: trap_get_def trap_has_def trap_ownKeys_def)









text \<open>
  C5. Under the Sync strategy, when the write of a mutation fails, the trap ends with the
  write's error, and the handle it leaves holds the content after the assignment or the
  deletion: the mutation is not undone, and the disk is as it was.
\<close>

theorem sync_write_failure:
  assumes "save self = SaveSync"
  shows "(writeFileSync (fs w) (fileLocation self)
             (stringify self (snd (Reflect_set (content self) prop v))) = Inl e \<longrightarrow>
            trap_set self w prop v
              = (Inl e, self\<lparr>content := snd (Reflect_set (content self) prop v)\<rparr>, w))
       \<and> (writeFileSync (fs w) (fileLocation self)
             (stringify self (snd (Reflect_deleteProperty (content self) prop))) = Inl e \<longrightarrow>
            trap_deleteProperty self w prop
              = (Inl e, self\<lparr>content := snd (Reflect_deleteProperty (content self) prop)\<rparr>, w))"
  using assms by (simp add: save_defs split: prod.splits)

theorem sync_write_failure_witness:
  "save (handle_of counter SaveSync 1000) = SaveSync
   \<and> trap_set (handle_of counter SaveSync 1000) (deny [''cfg''] counter_world) ''count'' ''1''
      = (Inl (IOError EACCES), handle_of (object_of [(''count'', ''1'')]) SaveSync 1000,
         deny [''cfg''] counter_world)
   \<and> trap_deleteProperty (handle_of counter SaveSync 1000) (deny [''cfg''] counter_world)
        ''count''
      = (Inl (IOError EACCES), handle_of (object_of []) SaveSync 1000,
         deny [''cfg''] counter_world)
   \<and> readFileSync (fs (deny [''cfg''] counter_world)) [''cfg''] = Inr ''count=0;''"
proof -
  let ?h = "handle_of counter SaveSync 1000"
  let ?w = "deny [''cfg''] counter_world"
  have s: "save ?h = SaveSync" by (simp add: example_defs)
  have a: "writeFileSync (fs ?w) (fileLocation ?h)
             (stringify ?h (snd (Reflect_set (content ?h) ''count'' ''1''))) = Inl (IOError EACCES)"
    by (simp add: obj_defs example_defs fs_defs)
  have b: "writeFileSync (fs ?w) (fileLocation ?h)
             (stringify ?h (snd (Reflect_deleteProperty (content ?h) ''count'')))
            = Inl (IOError EACCES)"
    by (simp add: obj_defs example_defs fs_defs)
  have c: "?h\<lparr>content := snd (Reflect_set (content ?h) ''count'' ''1'')\<rparr>
             = handle_of (object_of [(''count'', ''1'')]) SaveSync 1000"
    "?h\<lparr>content := snd (Reflect_deleteProperty (content ?h) ''count'')\<rparr>
             = handle_of (object_of []) SaveSync 1000"
    by (simp_all add: obj_defs example_defs)
  have r: "readFileSync (fs ?w) [''cfg''] = Inr ''count=0;''"
    by (simp add: example_defs fs_defs)
  note t = sync_write_failure [OF s, of ?w "''count''" "''1''" "IOError EACCES"]
  from t a b c s r show ?thesis by simp
qed

text \<open>
  C6. Under the Async and Lazy strategies no mutation through the view ends with an
  error, whatever the disk would answer: the trap returns what the \<^verbatim>\<open>Reflect\<close>
  operation returned and does not touch the disk, and neither does a firing timer. When a
  write in flight fails, it leaves the list of writes in flight and that is all: the disk
  and the timers are as they were, no other write is started, and the handle is not
  involved.
\<close>

theorem async_lazy_silence:
  assumes "save self \<noteq> SaveSync"
  shows "fst (trap_set self w prop v) = Inr (fst (Reflect_set (content self) prop v))
       \<and> fst (trap_deleteProperty self w prop)
            = Inr (fst (Reflect_deleteProperty (content self) prop))
       \<and> fs (snd (snd (trap_set self w prop v))) = fs w
       \<and> fs (snd (snd (trap_deleteProperty self w prop))) = fs w
       \<and> fs (tick dt self w) = fs w
       \<and> (i < length (inflight w)
            \<and> writeFileSync (fs w) (fst (inflight w ! i)) (snd (inflight w ! i)) = Inl e \<longrightarrow>
          settle i w = w\<lparr>inflight := take i (inflight w) @ drop (Suc i) (inflight w)\<rparr>)"
proof -
  have s: "save self = SaveAsync \<or> save self = TimerCall"
    using assms by (cases "save self") simp_all
  have t: "fs (fold (\<lambda>t. saveAsync self) ts w0) = fs w0" for ts :: "nat list" and w0 :: world
    by (induction ts arbitrary: w0) (simp_all add: saveAsync_def)
  have k: "fs (tick dt self w) = fs w"
    by (simp add: tick_def t split: prod.splits)
  have l: "i < length (inflight w)
            \<and> writeFileSync (fs w) (fst (inflight w ! i)) (snd (inflight w ! i)) = Inl e \<longrightarrow>
          settle i w = w\<lparr>inflight := take i (inflight w) @ drop (Suc i) (inflight w)\<rparr>"
    by (simp add: settle_alone Let_def split: prod.splits)
  from s show ?thesis
  proof
    assume "save self = SaveAsync"
    then show ?thesis using k l by (simp add: save_defs split: prod.splits)
  next
    assume "save self = TimerCall"
    then show ?thesis using k l by (simp add: save_defs split: prod.splits)
  qed
qed

theorem async_lazy_silence_witness:
  "save (handle_of counter SaveAsync 1000) \<noteq> SaveSync
   \<and> fst (trap_set (handle_of counter SaveAsync 1000) (deny [''cfg''] counter_world)
             ''count'' ''1'') = Inr True
   \<and> inflight (snd (snd (trap_set (handle_of counter SaveAsync 1000)
                            (deny [''cfg''] counter_world) ''count'' ''1'')))
        = [([''cfg''], ''count=1;'')]
   \<and> settle 0 ((deny [''cfg''] counter_world)\<lparr>inflight := [([''cfg''], ''count=1;'')]\<rparr>)
        = deny [''cfg''] counter_world
   \<and> save (handle_of counter TimerCall 50) \<noteq> SaveSync
   \<and> fst (trap_deleteProperty (handle_of counter TimerCall 50) (deny [''cfg''] counter_world)
             ''count'') = Inr True"
proof -
  let ?w = "deny [''cfg''] counter_world"
  let ?w1 = "?w\<lparr>inflight := [([''cfg''], ''count=1;'')]\<rparr>"
  have a: "save (handle_of counter SaveAsync 1000) \<noteq> SaveSync"
    by (simp add: example_defs)
  have b: "save (handle_of counter TimerCall 50) \<noteq> SaveSync"
    by (simp add: example_defs)
  have f: "0 < length (inflight ?w1)
            \<and> writeFileSync (fs ?w1) (fst (inflight ?w1 ! 0)) (snd (inflight ?w1 ! 0))
                = Inl (IOError EACCES)"
    by (simp add: example_defs fs_defs)
  have g: "?w1\<lparr>inflight := take 0 (inflight ?w1) @ drop (Suc 0) (inflight ?w1)\<rparr> = ?w"
    by (simp add: example_defs)
  have r: "fst (Reflect_set (content (handle_of counter SaveAsync 1000)) ''count'' ''1'')"
    "fst (Reflect_deleteProperty (content (handle_of counter TimerCall 50)) ''count'')"
    by (simp_all add: obj_defs example_defs)
  have q: "inflight (snd (snd (trap_set (handle_of counter SaveAsync 1000) ?w ''count'' ''1'')))
        = [([''cfg''], ''count=1;'')]"
    by (simp add: save_defs obj_defs example_defs)
  note t1 = async_lazy_silence [OF a, of ?w "''count''" "''1''"]
  note t2 = async_lazy_silence [OF a, of ?w1 _ _ _ 0 "IOError EACCES"]
  note t3 = async_lazy_silence [OF b, of ?w "''count''"]
  from t2 f g have "settle 0 ?w1 = ?w" by simp
  with t1 t3 r q a b show ?thesis by simp
qed

section \<open>Sequences of mutations under the Sync strategy\<close>

lemma mutate_sync:
  assumes "save self = SaveSync" and "mutate self w m = (Inr b, self1, w1)"
  shows "save self1 = SaveSync \<and> fileLocation self1 = fileLocation self
       \<and> stringify self1 = stringify self \<and> parse self1 = parse self
       \<and> readFileSync (fs w1) (fileLocation self) = Inr (stringify self (content self1))"
  using assms
  by (cases m)
     (auto simp: mutate_def save_defs dest!: writeFileSync_read
           split: prod.splits sum.splits)

lemma mutations_sync:
  assumes "save self = SaveSync" and "mutations self w ms = (Inr bs, self1, w1)"
  shows "save self1 = SaveSync \<and> fileLocation self1 = fileLocation self
       \<and> stringify self1 = stringify self \<and> parse self1 = parse self
       \<and> (ms \<noteq> [] \<longrightarrow>
            readFileSync (fs w1) (fileLocation self) = Inr (stringify self (content self1)))"
  using assms
proof (induction ms arbitrary: self w bs)
  case Nil
  then show ?case by simp
next
  case (Cons m ms)
  from Cons.prems(2) obtain b self0 w0 bs0 where
    step: "mutate self w m = (Inr b, self0, w0)" and
    rest: "mutations self0 w0 ms = (Inr bs0, self1, w1)"
    by (auto split: prod.splits sum.splits)
  note one = mutate_sync [OF Cons.prems(1) step]
  then have s0: "save self0 = SaveSync" by simp
  note ih = Cons.IH [OF s0 rest]
  show ?case
  proof (cases ms)
    case Nil
    with rest one show ?thesis by simp
  next
    case (Cons a list)
    with ih one show ?thesis by simp
  qed
qed

lemma mutations_prefix:
  assumes "mutations self w (ms @ ms') = (Inr bs, self2, w2)"
  shows "\<exists>bs1 self1 w1. mutations self w ms = (Inr bs1, self1, w1)"
  using assms
proof (induction ms arbitrary: self w bs)
  case Nil
  then show ?case by simp
next
  case (Cons m ms)
  from Cons.prems obtain b self0 w0 bs0 where
    step: "mutate self w m = (Inr b, self0, w0)" and
    rest: "mutations self0 w0 (ms @ ms') = (Inr bs0, self2, w2)"
    by (auto split: prod.splits sum.splits)
  from Cons.IH [OF rest] step show ?case by auto
qed

lemma sync_example:
  "mutations (handle_of counter SaveSync 1000) counter_world
           [Assign ''count'' ''1'', Delete ''count'']
         = (Inr [True, True], handle_of (object_of []) SaveSync 1000,
            put_file [''cfg''] [] empty_world)"
  by (simp add: save_defs obj_defs example_defs fs_defs)

text \<open>
  C1, as the code has it. Under the Sync strategy, after each mutation of a sequence that
  returns, the file holds exactly \<^verbatim>\<open>stringify\<close> of the live value; parsing it yields
  the live value whenever the codec reads back what it wrote for that value.
\<close>

theorem sync_write_on_mutation:
  assumes "save self = SaveSync"
      and "mutations self w ms = (Inr bs, self2, w2)"
      and "0 < n" and "n \<le> length ms"
  shows "\<exists>bs1 self1 w1.
           mutations self w (take n ms) = (Inr bs1, self1, w1)
         \<and> readFileSync (fs w1) (fileLocation self) = Inr (stringify self (content self1))
         \<and> (parse self (stringify self (content self1)) = Inr (content self1) \<longrightarrow>
              (\<exists>text. readFileSync (fs w1) (fileLocation self) = Inr text
                    \<and> parse self text = Inr (content self1)))"
proof -
  have "mutations self w (take n ms @ drop n ms) = (Inr bs, self2, w2)"
    using assms(2) by simp
  from mutations_prefix [OF this] obtain bs1 self1 w1 where
    pre: "mutations self w (take n ms) = (Inr bs1, self1, w1)" by blast
  have "take n ms \<noteq> []" using assms(3,4) by (cases ms) auto
  with mutations_sync [OF assms(1) pre]
  have "readFileSync (fs w1) (fileLocation self) = Inr (stringify self (content self1))"
    by simp
  with pre show ?thesis by auto
qed

theorem sync_write_on_mutation_witness:
  "save (handle_of counter SaveSync 1000) = SaveSync
   \<and> mutations (handle_of counter SaveSync 1000) counter_world
        [Assign ''count'' ''1'', Delete ''count'']
      = (Inr [True, True], handle_of (object_of []) SaveSync 1000,
         put_file [''cfg''] [] empty_world)
   \<and> (0::nat) < 1 \<and> 1 \<le> length [Assign ''count'' ''1'', Delete ''count'']
   \<and> (\<exists>bs1 self1 w1.
         mutations (handle_of counter SaveSync 1000) counter_world [Assign ''count'' ''1'']
           = (Inr bs1, self1, w1)
       \<and> content self1 = object_of [(''count'', ''1'')]
       \<and> readFileSync (fs w1) [''cfg''] = Inr ''count=1;''
       \<and> kv_parse ''count=1;'' = Inr (content self1))"
proof -
  let ?h = "handle_of counter SaveSync 1000"
  let ?ms = "[Assign ''count'' ''1'', Delete ''count'']"
  have s: "save ?h = SaveSync" by (simp add: example_defs)
  have one: "mutations ?h counter_world [Assign ''count'' ''1'']
           = (Inr [True], handle_of (object_of [(''count'', ''1'')]) SaveSync 1000,
              put_file [''cfg''] ''count=1;'' empty_world)"
    by (simp add: save_defs obj_defs example_defs fs_defs)
  have n: "(0::nat) < 1" "1 \<le> length ?ms" by simp_all
  have tk: "take 1 ?ms = [Assign ''count'' ''1'']" by simp
  from sync_write_on_mutation [OF s sync_example n] obtain bs1 self1 w1 where
    r: "mutations ?h counter_world (take 1 ?ms) = (Inr bs1, self1, w1)" and
    f: "readFileSync (fs w1) (fileLocation ?h) = Inr (stringify ?h (content self1))"
    by blast
  from r one tk have c: "self1 = handle_of (object_of [(''count'', ''1'')]) SaveSync 1000"
    by simp
  then have c1: "content self1 = object_of [(''count'', ''1'')]"
    by (simp add: example_defs)
  have st: "stringify ?h (object_of [(''count'', ''1'')]) = ''count=1;''"
    "fileLocation ?h = [''cfg'']"
    "kv_parse ''count=1;'' = Inr (object_of [(''count'', ''1'')])"
    by (simp_all add: example_defs)
  from r tk f c1 st s sync_example n show ?thesis by auto
qed

text \<open>
  C1, as the spec words it, fails for a codec that does not read back what it wrote: the
  caller assigns a value with a \<^verbatim>\<open>;\<close> in it, the file holds the serialised content,
  and parsing the file yields three properties where the live value has two.
\<close>

theorem sync_roundtrip_counterexample:
  "mutations (handle_of counter SaveSync 1000) counter_world [Assign ''a'' ''x;b=y'']
     = (Inr [True],
        handle_of (object_of [(''count'', ''0''), (''a'', ''x;b=y'')]) SaveSync 1000,
        put_file [''cfg''] ''count=0;a=x;b=y;'' empty_world)
   \<and> readFileSync (fs (put_file [''cfg''] ''count=0;a=x;b=y;'' empty_world)) [''cfg'']
       = Inr ''count=0;a=x;b=y;''
   \<and> parse (handle_of counter SaveSync 1000) ''count=0;a=x;b=y;''
       = Inr (object_of [(''count'', ''0''), (''a'', ''x''), (''b'', ''y'')])
   \<and> object_of [(''count'', ''0''), (''a'', ''x''), (''b'', ''y'')]
       \<noteq> object_of [(''count'', ''0''), (''a'', ''x;b=y'')]"
  by (simp add: save_defs obj_defs example_defs fs_defs)

section \<open>The debounced trigger\<close>

lemma owned_call:
  "owned (lz, rt) \<Longrightarrow>
   lazyTimer_call lz rt
     = (lz\<lparr>timeout := Some (fresh rt)\<rparr>,
        rt\<lparr>fresh := Suc (fresh rt),
           armed := [(fresh rt, now rt + timer_after (time lz))]\<rparr>)"
  by (auto simp: owned_def lazyTimer_call_def clearTimeout_def setTimeout_def
           split: list.splits option.splits)

lemma owned_after_call: "owned (lz, rt) \<Longrightarrow> owned (lazyTimer_call lz rt)"
  by (simp add: owned_call) (simp add: owned_def)

lemma owned_after_advance:
  "owned (lz, rt) \<Longrightarrow> owned (lz, snd (advance dt rt))"
  by (auto simp: owned_def advance_def Let_def split: list.splits)

lemma time_call: "time (fst (lazyTimer_call lz rt)) = time lz"
  by (simp add: lazyTimer_call_def setTimeout_def Let_def split: prod.splits)

lemma run_keeps:
  "owned s \<Longrightarrow> owned (snd (run es s)) \<and> time (fst (snd (run es s))) = time (fst s)"
proof (induction es s rule: run.induct)
  case (1 s)
  then show ?case by simp
next
  case (2 es lz rt)
  from 2 have "owned (lazyTimer_call lz rt)" by (simp add: owned_after_call)
  with 2 show ?case by (simp add: time_call)
next
  case (3 dt es lz rt)
  obtain fired rt1 where a: "advance dt rt = (fired, rt1)" by (cases "advance dt rt")
  with 3 owned_after_advance [of lz rt dt] have o: "owned (lz, rt1)" by simp
  from "3.IH" [OF a [symmetric] o] a show ?case
    by (auto split: prod.splits)
qed

lemma run_append:
  "run (es @ es1) s =
     (case run es s of (fired, s1) \<Rightarrow> (case run es1 s1 of (fired1, s2) \<Rightarrow> (fired @ fired1, s2)))"
  by (induction es s rule: run.induct) (simp_all split: prod.splits)

lemma burst_Cons: "burst (g # gaps) = Call # Wait g # burst gaps"
  by (simp add: burst_def)

lemma run_burst:
  assumes "owned (lz, rt)" and "\<forall>g\<in>set gaps. g < timer_after (time lz)"
  shows "\<exists>lz1 rt1 i. run (burst gaps) (lz, rt) = ([], lz1, rt1)
           \<and> time lz1 = time lz \<and> timeout lz1 = Some i
           \<and> now rt1 = now rt + sum_list gaps
           \<and> armed rt1 = [(i, now rt + sum_list gaps + timer_after (time lz))]"
  using assms
proof (induction gaps arbitrary: lz rt)
  case Nil
  then show ?case by (simp add: burst_def owned_call)
next
  case (Cons g gaps)
  let ?d = "timer_after (time lz)"
  let ?lz = "lz\<lparr>timeout := Some (fresh rt)\<rparr>"
  let ?rt = "rt\<lparr>fresh := Suc (fresh rt), armed := [(fresh rt, now rt + ?d)],
                now := now rt + g\<rparr>"
  from Cons.prems have g: "g < ?d" by simp
  have adv: "advance g (rt\<lparr>fresh := Suc (fresh rt), armed := [(fresh rt, now rt + ?d)]\<rparr>)
               = ([], ?rt)"
    using g by (simp add: advance_def Let_def)
  have o: "owned (?lz, ?rt)" by (simp add: owned_def)
  have t: "\<forall>g\<in>set gaps. g < timer_after (time ?lz)" using Cons.prems by simp
  from Cons.IH [OF o t] obtain lz1 rt1 i where
    r: "run (burst gaps) (?lz, ?rt) = ([], lz1, rt1)" and
    p: "time lz1 = time lz" "timeout lz1 = Some i" "now rt1 = now rt + g + sum_list gaps"
       "armed rt1 = [(i, now rt + g + sum_list gaps + ?d)]"
    by auto
  have "run (burst (g # gaps)) (lz, rt) = ([], lz1, rt1)"
    using Cons.prems(1) adv r by (simp add: burst_Cons owned_call)
  with p show ?case by (simp add: add.assoc)
qed

text \<open>
  C4, as the code has it. For every delay, in every state a trigger can reach at most one
  timer is armed, and a call leaves exactly one: the pending one, if any, is cancelled.
  For a delay \<open>ms\<close> that \<^verbatim>\<open>setTimeout\<close> honours, from 1 to \<open>2^31 - 1\<close>, the
  timer a call leaves is due \<open>ms\<close> after the call, and a burst of calls, each less
  than \<open>ms\<close> after the one before, followed by a wait of \<open>ms\<close> or more, runs the
  callback exactly once, \<open>ms\<close> after the last call of the burst.
\<close>

theorem debounce:
  assumes "armed rt0 = []"
      and "run history (createLazyTimer ms, rt0) = (fired0, lz, rt)"
  shows "length (armed rt) \<le> 1
       \<and> length (armed (snd (lazyTimer_call lz rt))) = 1
       \<and> (1 \<le> ms \<and> ms \<le> TIMEOUT_MAX \<longrightarrow>
            armed (snd (lazyTimer_call lz rt)) = [(fresh rt, now rt + ms)]
            \<and> ((\<forall>g\<in>set gaps. g < ms) \<and> ms \<le> dt \<longrightarrow>
                 fst (run (burst gaps @ [Wait dt]) (lz, rt))
                   = [now rt + sum_list gaps + ms]))"
proof -
  have "owned (createLazyTimer ms, rt0)"
    using assms(1) by (simp add: owned_def)
  from run_keeps [OF this, of history] assms(2)
  have o: "owned (lz, rt)" and t: "time lz = ms"
    by (simp_all add: createLazyTimer_def)
  from o have one: "length (armed rt) \<le> 1"
    by (auto simp: owned_def split: list.splits)
  from o have two: "length (armed (snd (lazyTimer_call lz rt))) = 1"
    by (simp add: owned_call)
  have three: "armed (snd (lazyTimer_call lz rt)) = [(fresh rt, now rt + ms)]"
    if "1 \<le> ms \<and> ms \<le> TIMEOUT_MAX"
    using that o t by (simp add: owned_call timer_after_range)
  have four: "fst (run (burst gaps @ [Wait dt]) (lz, rt)) = [now rt + sum_list gaps + ms]"
    if r: "1 \<le> ms \<and> ms \<le> TIMEOUT_MAX" and g: "(\<forall>g\<in>set gaps. g < ms) \<and> ms \<le> dt"
  proof -
    from t r have d: "timer_after (time lz) = ms"
      by (simp add: timer_after_range)
    from g d have "\<forall>g\<in>set gaps. g < timer_after (time lz)" by simp
    from run_burst [OF o this] d obtain lz1 rt1 i where
      b: "run (burst gaps) (lz, rt) = ([], lz1, rt1)" and
      p: "now rt1 = now rt + sum_list gaps" "armed rt1 = [(i, now rt + sum_list gaps + ms)]"
      by auto
    have "advance dt rt1 = ([now rt + sum_list gaps + ms],
            rt1\<lparr>now := now rt1 + dt, armed := []\<rparr>)"
      using p g by (simp add: advance_def Let_def)
    with b show ?thesis by (simp add: run_append)
  qed
  from one two three four show ?thesis by blast
qed

theorem debounce_witness:
  "armed \<lparr>now = 0, fresh = 0, armed = []\<rparr> = []
   \<and> run [Call, Wait 100] (createLazyTimer 50, \<lparr>now = 0, fresh = 0, armed = []\<rparr>)
       = ([50], \<lparr>time = 50, timeout = Some 0\<rparr>, \<lparr>now = 100, fresh = 1, armed = []\<rparr>)
   \<and> (1 :: nat) \<le> 50 \<and> 50 \<le> TIMEOUT_MAX
   \<and> list_all (\<lambda>g. g < 50) [10, 10 :: nat] \<and> (50 :: nat) \<le> 60
   \<and> length (armed \<lparr>now = 100, fresh = 1, armed = []\<rparr>) \<le> 1
   \<and> armed (snd (lazyTimer_call \<lparr>time = 50, timeout = Some 0\<rparr>
                     \<lparr>now = 100, fresh = 1, armed = []\<rparr>)) = [(1, 150)]
   \<and> fst (run (burst [10, 10] @ [Wait 60])
             (\<lparr>time = 50, timeout = Some 0\<rparr>, \<lparr>now = 100, fresh = 1, armed = []\<rparr>)) = [170]"
proof -
  let ?rt0 = "\<lparr>now = 0, fresh = 0, armed = []\<rparr>"
  have a: "armed ?rt0 = []" by simp
  have b: "run [Call, Wait 100] (createLazyTimer 50, ?rt0)
       = ([50], \<lparr>time = 50, timeout = Some 0\<rparr>, \<lparr>now = 100, fresh = 1, armed = []\<rparr>)"
    by (simp add: timer_defs createLazyTimer_def)
  have r: "(1 :: nat) \<le> 50 \<and> 50 \<le> TIMEOUT_MAX" by (simp add: TIMEOUT_MAX_def)
  have c: "(\<forall>g\<in>set [10, 10 :: nat]. g < 50) \<and> (50 :: nat) \<le> 60" by simp
  note t = debounce [OF a b, of "[10, 10]" 60]
  from t r c have
    "length (armed \<lparr>now = 100, fresh = 1, armed = []\<rparr>) \<le> 1
     \<and> armed (snd (lazyTimer_call \<lparr>time = 50, timeout = Some 0\<rparr>
                     \<lparr>now = 100, fresh = 1, armed = []\<rparr>))
         = [(fresh \<lparr>now = 100, fresh = 1, armed = []\<rparr>,
             now \<lparr>now = 100, fresh = 1, armed = []\<rparr> + 50)]
     \<and> fst (run (burst [10, 10] @ [Wait 60])
             (\<lparr>time = 50, timeout = Some 0\<rparr>, \<lparr>now = 100, fresh = 1, armed = []\<rparr>))
         = [now \<lparr>now = 100, fresh = 1, armed = []\<rparr> + sum_list [10, 10] + 50]"
    by blast
  with a b r show ?thesis by simp
qed

text \<open>
  C4, for every delay, fails: with a delay of \<open>2^31\<close> ms the timer of each call is armed
  1 ms ahead, so three calls 10 ms apart run the callback three times, 1 ms after each
  call, and not once \<open>2^31\<close> ms after the last.
\<close>

theorem debounce_counterexample:
  "fst (run (burst [10, 10] @ [Wait 2147483648])
          (createLazyTimer 2147483648, \<lparr>now = 0, fresh = 0, armed = []\<rparr>)) = [1, 11, 21]
   \<and> list_all (\<lambda>g. g < 2147483648) [10, 10 :: nat]
   \<and> [1, 11, 21] \<noteq> [0 + sum_list [10, 10] + (2147483648 :: nat)]"
  by (simp add: timer_defs createLazyTimer_def)

section \<open>Writes in flight\<close>






















text \<open>
  Two writes that overlap: both have opened the file before either writes. When the
  newer one writes first, the older text ends in the file; when the older one writes
  first, the newer and shorter text lands on it and the file holds neither.
\<close>

lemma overlapping_writes:
  "readFileSync
     (fs (write_data 0 (write_data 1 (open_write 0 (open_write 0
        (counter_world\<lparr>inflight := [([''cfg''], ''count=10;''), ([''cfg''], ''count=2;'')]\<rparr>))))))
     [''cfg''] = Inr ''count=10;''"
  "readFileSync
     (fs (write_data 0 (write_data 0 (open_write 0 (open_write 0
        (counter_world\<lparr>inflight := [([''cfg''], ''count=10;''), ([''cfg''], ''count=2;'')]\<rparr>))))))
     [''cfg''] = Inr ''count=2;;''"
  by (simp_all add: open_write_def write_data_def example_defs fs_defs)

end
